theory Spec2Isabelle
  imports Main "HOL-Library.Mapping" "HOL-Library.AList_Mapping" "HOL-Library.Sublist"
begin

section \<open>Python values, strings and errors\<close>

text \<open>
  The update scripts of \<^verbatim>\<open>server_update/\<close> are modelled as pure functions of the text they
  download. A \<^typ>\<open>char\<close> stands for one code point below 256, a Python \<^verbatim>\<open>str\<close> is a
  \<^typ>\<open>string\<close>. The only exception that the modelled loops let escape is \<^verbatim>\<open>IndexError\<close>
  (a subscript past the end of a list or tuple); \<^verbatim>\<open>ValueError\<close> from \<^verbatim>\<open>int(...)\<close> is
  always caught where it is raised and is modelled by the predicate \<open>int_parses\<close>.
\<close>

datatype py_error = IndexError

abbreviation (input) tab :: char where
  "tab \<equiv> CHR 0x09"

abbreviation (input) newline :: char where
  "newline \<equiv> CHR 0x0A"

text \<open>\<^verbatim>\<open>xs[i]\<close> for a constant index \<open>i \<ge> 0\<close>.\<close>

definition get :: "'a list \<Rightarrow> nat \<Rightarrow> py_error + 'a" where
  "get xs i = (if i < length xs then Inr (xs ! i) else Inl IndexError)"

text \<open>Sequencing of two steps of which the first may raise.\<close>

fun and_then :: "py_error + 'a \<Rightarrow> ('a \<Rightarrow> py_error + 'b) \<Rightarrow> py_error + 'b" where
  "and_then (Inl e) f = Inl e"
| "and_then (Inr x) f = f x"

text \<open>
  \<^verbatim>\<open>s.split(sep)\<close> with an explicit separator: every occurrence of \<open>sep\<close> cuts, scanning
  from the left, and the result always has at least one element. All separators of the
  source are non-empty literals; the test \<open>sep \<noteq> []\<close> only makes the recursion well founded.
\<close>

fun str_split :: "string \<Rightarrow> string \<Rightarrow> string list" where
  "str_split sep [] = [[]]"
| "str_split sep (c # cs) =
     (if sep \<noteq> [] \<and> take (length sep) (c # cs) = sep
      then [] # str_split sep (drop (length sep - 1) cs)
      else (case str_split sep cs of
              [] \<Rightarrow> [[c]]
            | w # ws \<Rightarrow> (c # w) # ws))"

text \<open>\<^verbatim>\<open>str.isspace\<close> on one code point below 256, and \<^verbatim>\<open>s.strip()\<close>.\<close>

definition isspace :: "char \<Rightarrow> bool" where
  "isspace c \<longleftrightarrow> c \<in> set [CHR 0x09, CHR 0x0A, CHR 0x0B, CHR 0x0C, CHR 0x0D,
                          CHR 0x1C, CHR 0x1D, CHR 0x1E, CHR 0x1F, CHR 0x20,
                          CHR 0x85, CHR 0xA0]"

definition str_strip :: "string \<Rightarrow> string" where
  "str_strip s = rev (dropWhile isspace (rev (dropWhile isspace s)))"

text \<open>\<^verbatim>\<open>s.replace(c, '')\<close> for a one-character \<open>c\<close>.\<close>

definition str_remove :: "char \<Rightarrow> string \<Rightarrow> string" where
  "str_remove c s = filter (\<lambda>x. x \<noteq> c) s"

text \<open>
  Whether \<^verbatim>\<open>int(s)\<close> returns rather than raises \<^verbatim>\<open>ValueError\<close>. The white space
  that \<^verbatim>\<open>int\<close> ignores around the number is not that of \<^verbatim>\<open>strip\<close>: of the code
  points below 128 only the six of C's \<^verbatim>\<open>isspace\<close> are skipped, so the separators
  \<^verbatim>\<open>0x1C\<close> to \<^verbatim>\<open>0x1F\<close> make \<^verbatim>\<open>int\<close> raise; the two white-space code points from
  128 on are first replaced by a blank and then skipped. One sign is allowed, and the
  digits may be grouped by single underscores. The bound that interpreters from version
  3.11 on put on the number of digits is not modelled; the general theorems about the
  marker table never unfold this predicate, so they hold whichever strings parse.
\<close>

definition int_space :: "char \<Rightarrow> bool" where
  "int_space c \<longleftrightarrow> c \<in> set [CHR 0x09, CHR 0x0A, CHR 0x0B, CHR 0x0C, CHR 0x0D, CHR 0x20,
                            CHR 0x85, CHR 0xA0]"

definition isdigit :: "char \<Rightarrow> bool" where
  "isdigit c \<longleftrightarrow> c \<in> set ''0123456789''"

fun digits :: "string \<Rightarrow> bool" where
  "digits [] = False"
| "digits [c] = isdigit c"
| "digits (c # d # cs) =
     (isdigit c \<and> (if d = CHR ''_'' then digits cs else digits (d # cs)))"

definition int_parses :: "string \<Rightarrow> bool" where
  "int_parses s =
     (case rev (dropWhile int_space (rev (dropWhile int_space s))) of
        [] \<Rightarrow> False
      | c # cs \<Rightarrow> if c = CHR ''+'' \<or> c = CHR ''-'' then digits cs else digits (c # cs))"

text \<open>
  Iterating over a binary file: the lines, each with its terminating newline (the last
  line may have none).
\<close>

fun readlines :: "string \<Rightarrow> string list" where
  "readlines [] = []"
| "readlines (c # cs) =
     (if c = newline then [c] # readlines cs
      else (case readlines cs of
              [] \<Rightarrow> [[c]]
            | l # ls \<Rightarrow> (c # l) # ls))"


section \<open>Homolog genes (\<^verbatim>\<open>server_update/homolog_genes.py\<close>)\<close>

text \<open>
  The gene history is a dictionary from (taxonomy id, discontinued gene id) to the current
  gene id, where the string \<^verbatim>\<open>'-'\<close> says that the gene is discontinued.
\<close>

type_synonym gene_history = "(string \<times> string, string) mapping"

text \<open>
  The body of the loop of \<^verbatim>\<open>load_gene_history\<close>. In the assignment
  \<^verbatim>\<open>gene_history[(info[0], info[2])] = info[1]\<close> Python evaluates the right-hand side first.
\<close>

definition history_line :: "string \<Rightarrow> gene_history \<Rightarrow> py_error + gene_history" where
  "history_line line gene_history =
     (let info = str_split [tab] (str_strip line) in
      case get info 1 of Inl e \<Rightarrow> Inl e | Inr current_id \<Rightarrow>
      case get info 0 of Inl e \<Rightarrow> Inl e | Inr taxonomy \<Rightarrow>
      case get info 2 of Inl e \<Rightarrow> Inl e | Inr discontinued_id \<Rightarrow>
        Inr (Mapping.update (taxonomy, discontinued_id) current_id gene_history))"

fun history_lines :: "string list \<Rightarrow> gene_history \<Rightarrow> py_error + gene_history" where
  "history_lines [] gene_history = Inr gene_history"
| "history_lines (line # rest) gene_history =
     (case history_line line gene_history of
        Inl e \<Rightarrow> Inl e
      | Inr gene_history' \<Rightarrow> history_lines rest gene_history')"

text \<open>
  \<^verbatim>\<open>load_gene_history\<close>, as a function of the decompressed \<^verbatim>\<open>gene_history\<close> file:
  the first line is the header and is skipped.
\<close>

definition load_gene_history :: "string \<Rightarrow> py_error + gene_history" where
  "load_gene_history content = history_lines (tl (readlines content)) Mapping.empty"

text \<open>
  The body of the loop of \<^verbatim>\<open>prepare_data\<close>. The state is the table \<^verbatim>\<open>homologs_out\<close> and
  the lines printed to \<^verbatim>\<open>log.txt\<close>. The dictionary is consulted before the taxonomy test,
  so both subscripts are evaluated for every line.
\<close>

type_synonym homolog_state = "string list list \<times> string list"

definition homolog_line ::
  "gene_history \<Rightarrow> string set \<Rightarrow> string \<Rightarrow> homolog_state \<Rightarrow> py_error + homolog_state" where
  "homolog_line gene_history common_tax_ids line st =
     (let columns = str_split [tab] line; (homologs_out, log) = st in
      case get columns 1 of Inl e \<Rightarrow> Inl e | Inr tax \<Rightarrow>
      case get columns 2 of Inl e \<Rightarrow> Inl e | Inr entrez \<Rightarrow>
        let gene_id_status = Mapping.lookup gene_history (tax, entrez) in
        if tax \<notin> common_tax_ids then Inr (homologs_out, log)
        else if gene_id_status = Some ''-''
        then Inr (homologs_out, log @ [''Gene '' @ entrez @ '' is discontinued''])
        else
          let (gene_id, log') =
                (case gene_id_status of
                   None \<Rightarrow> (entrez, log)
                 | Some new_id \<Rightarrow> (new_id, log @ [''Gene '' @ entrez @ '' is now '' @ new_id]))
          in case get columns 0 of Inl e \<Rightarrow> Inl e | Inr grp \<Rightarrow>
               Inr (homologs_out @ [[grp, tax, gene_id]], log'))"

fun homolog_lines ::
  "gene_history \<Rightarrow> string set \<Rightarrow> string list \<Rightarrow> homolog_state \<Rightarrow> py_error + homolog_state" where
  "homolog_lines gene_history common_tax_ids [] st = Inr st"
| "homolog_lines gene_history common_tax_ids (line # rest) st =
     (case homolog_line gene_history common_tax_ids line st of
        Inl e \<Rightarrow> Inl e
      | Inr st' \<Rightarrow> homolog_lines gene_history common_tax_ids rest st')"

definition homolog_header :: "string list" where
  "homolog_header = [''group_id'', ''tax_id'', ''entrez_id'']"

text \<open>
  Lines 51 to 78 of \<^verbatim>\<open>prepare_data\<close>: the table built from the text \<open>homologs\<close>, a gene
  history and the common taxonomy ids (\<^verbatim>\<open>common_taxids()\<close> is imported from a module that
  is not part of these sources, so its result is a parameter).
\<close>

definition build_homologs ::
  "string \<Rightarrow> gene_history \<Rightarrow> string set \<Rightarrow> py_error + homolog_state" where
  "build_homologs homologs gene_history common_tax_ids =
     homolog_lines gene_history common_tax_ids (str_split [newline] homologs)
       ([homolog_header], [])"

text \<open>
  The specification's reading of the same step, in its own words: the resolver answers
  \<open>Discontinued\<close>, \<open>Current new_id\<close> or \<open>Unknown\<close> for a pair, and the builder drops a line
  outside the relevant set or with a discontinued gene, rewrites a superseded id and keeps
  an unknown one.
\<close>

datatype resolution = Current string | Discontinued | Unknown

definition resolve :: "gene_history \<Rightarrow> string \<Rightarrow> string \<Rightarrow> resolution" where
  "resolve gene_history tax gene =
     (case Mapping.lookup gene_history (tax, gene) of
        None \<Rightarrow> Unknown
      | Some current_id \<Rightarrow> if current_id = ''-'' then Discontinued else Current current_id)"

definition spec_homolog_record :: "gene_history \<Rightarrow> string set \<Rightarrow> string \<Rightarrow> string list option" where
  "spec_homolog_record gene_history relevant line =
     (case str_split [tab] line of
        grp # tax # entrez # others \<Rightarrow>
          if tax \<notin> relevant then None
          else (case resolve gene_history tax entrez of
                  Discontinued \<Rightarrow> None
                | Current new_id \<Rightarrow> Some [grp, tax, new_id]
                | Unknown \<Rightarrow> Some [grp, tax, entrez])
      | _ \<Rightarrow> None)"

text \<open>
  \<^verbatim>\<open>handle_response\<close> and the whole of \<^verbatim>\<open>prepare_data\<close>, as a function of the two
  downloaded texts. The file \<^verbatim>\<open>homologene.tab\<close> is written only when no exception
  escaped, from the rows returned here.
\<close>

definition homolog_handle_response :: "string \<Rightarrow> string" where
  "homolog_handle_response content = str_strip content"

definition homolog_prepare_data ::
  "string \<Rightarrow> string \<Rightarrow> string set \<Rightarrow> py_error + homolog_state" where
  "homolog_prepare_data content history_content common_tax_ids =
     (let homologs = homolog_handle_response content in
      case load_gene_history history_content of
        Inl e \<Rightarrow> Inl e
      | Inr gene_history \<Rightarrow> build_homologs homologs gene_history common_tax_ids)"



section \<open>Gene information (\<^verbatim>\<open>server_update/ncbi_gene_info.py\<close>)\<close>

text \<open>
  The two module-level variables that \<^verbatim>\<open>handle_response\<close> declares \<^verbatim>\<open>global\<close>:
  \<^verbatim>\<open>gene_info\<close>, a \<^verbatim>\<open>defaultdict(set)\<close> from taxonomy id to a set of tuples of fields, and
  \<^verbatim>\<open>relevant_taxonomy_ids\<close>.
\<close>

type_synonym gene = "string list"

record globals =
  gene_info :: "(string, gene set) mapping"
  relevant_taxonomy_ids :: "string set"

text \<open>
  The body of the parsing loop. \<^verbatim>\<open>gene_info[k].add(info)\<close> on a \<^verbatim>\<open>defaultdict(set)\<close>
  creates the entry \<open>k\<close> with the empty set when it is missing.
\<close>

definition info_line ::
  "string set \<Rightarrow> string \<Rightarrow> (string, gene set) mapping \<Rightarrow> py_error + (string, gene set) mapping" where
  "info_line relevant line gi =
     (let info = str_split [tab] (str_strip line) in
      case get info 0 of Inl e \<Rightarrow> Inl e | Inr tax \<Rightarrow>
        if tax \<in> relevant
        then Inr (Mapping.map_default tax {} (insert info) gi)
        else Inr gi)"

fun info_lines ::
  "string set \<Rightarrow> string list \<Rightarrow> (string, gene set) mapping \<Rightarrow> py_error + (string, gene set) mapping" where
  "info_lines relevant [] gi = Inr gi"
| "info_lines relevant (line # rest) gi =
     (case info_line relevant line gi of
        Inl e \<Rightarrow> Inl e
      | Inr gi' \<Rightarrow> info_lines relevant rest gi')"

text \<open>
  \<^verbatim>\<open>GeneInfo.handle_response\<close>, as a function of the decompressed \<^verbatim>\<open>gene_info\<close> file and
  of the globals before the call; it returns the globals after the call. The first
  statement is the guard \<^verbatim>\<open>if len(gene_info) != 0: return\<close>.
\<close>

definition geneinfo_handle_response :: "string \<Rightarrow> globals \<Rightarrow> py_error + globals" where
  "geneinfo_handle_response content g =
     (if \<not> Mapping.is_empty (gene_info g) then Inr g
      else case info_lines (relevant_taxonomy_ids g) (tl (readlines content)) Mapping.empty of
             Inl e \<Rightarrow> Inl e
           | Inr gi \<Rightarrow> Inr (g\<lparr>gene_info := gi\<rparr>))"

text \<open>A run of calls of \<^verbatim>\<open>handle_response\<close>, one per downloaded response, in order.\<close>

fun geneinfo_handle_responses :: "string list \<Rightarrow> globals \<Rightarrow> py_error + globals" where
  "geneinfo_handle_responses [] g = Inr g"
| "geneinfo_handle_responses (content # rest) g =
     (case geneinfo_handle_response content g of
        Inl e \<Rightarrow> Inl e
      | Inr g' \<Rightarrow> geneinfo_handle_responses rest g')"

text \<open>
  One row of the \<^verbatim>\<open>INSERT\<close> of \<^verbatim>\<open>GeneInfo.prepare_data\<close>: sixteen values, \<open>None\<close> for SQL
  \<^verbatim>\<open>NULL\<close>. The species name (\<^verbatim>\<open>common_taxid_to_name\<close>) and the two JSON texts built with
  \<^verbatim>\<open>parse_synonyms\<close> and \<^verbatim>\<open>parse_sources\<close> come from modules that are not part of these
  sources, so they are parameters. The column indexes are those of lines 24 to 27.
\<close>

definition dash_to_none :: "string \<Rightarrow> string option" where
  "dash_to_none v = (if v \<noteq> ''-'' then Some v else None)"

definition gene_row ::
  "string \<Rightarrow> (string \<Rightarrow> string) \<Rightarrow> (string \<Rightarrow> string) \<Rightarrow> gene \<Rightarrow> py_error + string option list" where
  "gene_row species synonyms_json db_refs_json gene =
     and_then (get gene 0) (\<lambda>tax_id.
     and_then (get gene 1) (\<lambda>gene_id.
     and_then (get gene 2) (\<lambda>symbol.
     and_then (get gene 4) (\<lambda>synonyms.
     and_then (get gene 5) (\<lambda>db_refs.
     and_then (get gene 8) (\<lambda>description.
     and_then (get gene 3) (\<lambda>locus_tag.
     and_then (get gene 6) (\<lambda>chromosome.
     and_then (get gene 7) (\<lambda>map_location.
     and_then (get gene 9) (\<lambda>type_of_gene.
     and_then (get gene 10) (\<lambda>symbol_from_nomenclature_authority.
     and_then (get gene 11) (\<lambda>full_name_from_nomenclature_authority.
     and_then (get gene 12) (\<lambda>nomenclature_status.
     and_then (get gene 13) (\<lambda>other_designations.
     and_then (get gene 14) (\<lambda>modification_date.
       Inr [Some species,
            Some tax_id,
            Some gene_id,
            Some symbol,
            Some (synonyms_json synonyms),
            Some (db_refs_json db_refs),
            dash_to_none description,
            dash_to_none locus_tag,
            dash_to_none chromosome,
            dash_to_none map_location,
            dash_to_none type_of_gene,
            dash_to_none symbol_from_nomenclature_authority,
            dash_to_none full_name_from_nomenclature_authority,
            dash_to_none nomenclature_status,
            dash_to_none other_designations,
            Some modification_date])))))))))))))))"


section \<open>Marker genes (\<^verbatim>\<open>server_update/marker_genes.py\<close>)\<close>

type_synonym marker_row = "string list"

text \<open>
  \<^verbatim>\<open>PanglaoDB.prepare_data\<close>. The inner loop runs over the organism codes of one line; the
  state is \<^verbatim>\<open>genes_by_organism\<close>, here the pair of its \<^verbatim>\<open>'Mouse'\<close> and \<^verbatim>\<open>'Human'\<close> lists.
\<close>

definition organism_mapper :: "string \<Rightarrow> string option" where
  "organism_mapper = [''Mm'' \<mapsto> ''Mouse'', ''Hs'' \<mapsto> ''Human'']"

type_synonym panglao_state = "marker_row list \<times> marker_row list"

fun panglao_orgs :: "string list \<Rightarrow> string list \<Rightarrow> panglao_state \<Rightarrow> py_error + panglao_state" where
  "panglao_orgs columns [] st = Inr st"
| "panglao_orgs columns (org # rest) (mouse, human) =
     (case organism_mapper org of
        None \<Rightarrow> panglao_orgs columns rest (mouse, human)
      | Some name \<Rightarrow>
          (case get columns 1 of Inl e \<Rightarrow> Inl e | Inr gene_symbol \<Rightarrow>
           case get columns 2 of Inl e \<Rightarrow> Inl e | Inr cell_type \<Rightarrow>
             let gene_entry = [name, gene_symbol, cell_type, ''PanglaoDB'', ''https://panglaodb.se/'']
             in panglao_orgs columns rest
                  (if name = ''Mouse'' then (mouse @ [gene_entry], human)
                   else (mouse, human @ [gene_entry]))))"

fun panglao_lines :: "string list \<Rightarrow> panglao_state \<Rightarrow> py_error + panglao_state" where
  "panglao_lines [] st = Inr st"
| "panglao_lines (line # rest) st =
     (let columns = str_split [tab] line in
      case get columns 0 of Inl e \<Rightarrow> Inl e | Inr species \<Rightarrow>
      case panglao_orgs columns (str_split '' '' species) st of
        Inl e \<Rightarrow> Inl e
      | Inr st' \<Rightarrow> panglao_lines rest st')"

text \<open>
  The table returned: the mouse rows, then the human rows, each with the two columns that
  \<^verbatim>\<open>GeneMatcher\<close> adds, \<^verbatim>\<open>Entrez ID\<close> and \<^verbatim>\<open>Function\<close>. \<^verbatim>\<open>GeneMatcher\<close> is not part of these
  sources: the gene it finds for a name under a taxonomy id is the parameter \<open>match\<close>,
  which gives the two values of the added columns.
\<close>

definition panglao_prepare_data ::
  "(string \<Rightarrow> string \<Rightarrow> string \<times> string) \<Rightarrow> string \<Rightarrow> py_error + marker_row list" where
  "panglao_prepare_data match content =
     (case panglao_lines (str_split [newline] content) ([], []) of
        Inl e \<Rightarrow> Inl e
      | Inr (mouse, human) \<Rightarrow>
          Inr (map (\<lambda>row. row @ [fst (match ''10090'' (row ! 1)), snd (match ''10090'' (row ! 1))]) mouse
             @ map (\<lambda>row. row @ [fst (match ''9606'' (row ! 1)), snd (match ''9606'' (row ! 1))]) human))"

text \<open>
  \<^verbatim>\<open>CellMarkerDB.prepare_data\<close>. The state is the set \<^verbatim>\<open>unique_rows\<close> and the list
  \<^verbatim>\<open>data\<close>. The inner loop runs over \<^verbatim>\<open>zip(symbols, entrez_ids)\<close>.
  \<^verbatim>\<open>'{}'.format(x)\<close> is \<open>x\<close> itself.
\<close>

type_synonym cellmarker_state = "(string \<times> string) set \<times> marker_row list"

fun cellmarker_pairs ::
  "string list \<Rightarrow> string \<Rightarrow> (string \<times> string) list \<Rightarrow> cellmarker_state \<Rightarrow> py_error + cellmarker_state" where
  "cellmarker_pairs columns organism [] st = Inr st"
| "cellmarker_pairs columns organism ((symbol, entrez_id) # rest) (unique_rows, data) =
     (if \<not> int_parses entrez_id then cellmarker_pairs columns organism rest (unique_rows, data)
      else
        case get columns 5 of Inl e \<Rightarrow> Inl e | Inr cell_name \<Rightarrow>
          if (cell_name, entrez_id) \<in> unique_rows
          then cellmarker_pairs columns organism rest (unique_rows, data)
          else
            case get columns 13 of Inl e \<Rightarrow> Inl e | Inr pubmed_id \<Rightarrow>
              let ref = pubmed_id;
                  ref_link = (if int_parses ref
                              then ''https://www.ncbi.nlm.nih.gov/pubmed/?term='' @ pubmed_id
                              else ''?'');
                  gene_entry = [organism, symbol, cell_name, ref, ref_link, entrez_id]
              in cellmarker_pairs columns organism rest
                   (insert (cell_name, entrez_id) unique_rows, data @ [gene_entry]))"

definition bracket_list :: "string \<Rightarrow> string list" where
  "bracket_list s = str_split '', '' (str_remove (CHR '']'') (str_remove (CHR ''['') s))"

fun cellmarker_lines :: "string list \<Rightarrow> cellmarker_state \<Rightarrow> py_error + cellmarker_state" where
  "cellmarker_lines [] st = Inr st"
| "cellmarker_lines (line # rest) st =
     (let columns = str_split [tab] line in
      case get columns 0 of Inl e \<Rightarrow> Inl e | Inr organism \<Rightarrow>
        if organism \<in> set [''Human'', ''Mouse'']
        then
          case get columns 8 of Inl e \<Rightarrow> Inl e | Inr gene_symbol \<Rightarrow>
          case get columns 9 of Inl e \<Rightarrow> Inl e | Inr entrez \<Rightarrow>
          case cellmarker_pairs columns organism
                 (zip (bracket_list gene_symbol) (bracket_list entrez)) st of
            Inl e \<Rightarrow> Inl e
          | Inr st' \<Rightarrow> cellmarker_lines rest st'
        else cellmarker_lines rest st)"

text \<open>
  The list \<^verbatim>\<open>data\<close> at line 156, from the text returned by \<^verbatim>\<open>handle_response\<close>. The table
  returned has these rows in this order, each with one more column, the description that
  the gene annotation gives for the row's entrez id.
\<close>

definition cellmarker_data :: "string \<Rightarrow> py_error + marker_row list" where
  "cellmarker_data content =
     (case cellmarker_lines (str_split [newline] content) ({}, []) of
        Inl e \<Rightarrow> Inl e
      | Inr (unique_rows, data) \<Rightarrow> Inr data)"

text \<open>The key on which rows are compared: (cell type, entrez id), columns 2 and 5.\<close>

definition marker_key :: "marker_row \<Rightarrow> string \<times> string" where
  "marker_key row = (row ! 2, row ! 5)"

text \<open>
  What a PanglaoDB line gives for one organism name when no record is compared with
  another: one record for each organism code of its first column that stands for that
  name, in the order of the codes.
\<close>

definition org_records :: "string list \<Rightarrow> string \<Rightarrow> string list \<Rightarrow> marker_row list" where
  "org_records columns name orgs =
     (case get columns 1 of Inl e \<Rightarrow> [] | Inr gene_symbol \<Rightarrow>
      case get columns 2 of Inl e \<Rightarrow> [] | Inr cell_type \<Rightarrow>
        map (\<lambda>org. [name, gene_symbol, cell_type, ''PanglaoDB'', ''https://panglaodb.se/''])
          (filter (\<lambda>org. organism_mapper org = Some name) orgs))"

definition panglao_line_records :: "string \<Rightarrow> string \<Rightarrow> marker_row list" where
  "panglao_line_records name line =
     (let columns = str_split [tab] line in
      case get columns 0 of
        Inl e \<Rightarrow> []
      | Inr species \<Rightarrow> org_records columns name (str_split '' '' species))"

text \<open>
  To speak of input order and of first occurrences: the records that the lines produce
  when no record is dropped as a duplicate, in the order of the lines and of the pairs
  within a line. A pair produces a record when its entrez id parses as an integer and its
  line, of an accepted organism, has the columns that the record is made of.
\<close>

definition pair_candidate :: "string list \<Rightarrow> string \<Rightarrow> string \<times> string \<Rightarrow> marker_row option" where
  "pair_candidate columns organism pair =
     (case pair of (symbol, entrez_id) \<Rightarrow>
        if int_parses entrez_id
        then (case get columns 5 of Inl e \<Rightarrow> None | Inr cell_name \<Rightarrow>
              case get columns 13 of Inl e \<Rightarrow> None | Inr pubmed_id \<Rightarrow>
                Some [organism, symbol, cell_name, pubmed_id,
                      (if int_parses pubmed_id
                       then ''https://www.ncbi.nlm.nih.gov/pubmed/?term='' @ pubmed_id
                       else ''?''),
                      entrez_id])
        else None)"

definition line_candidates :: "string \<Rightarrow> marker_row list" where
  "line_candidates line =
     (let columns = str_split [tab] line in
      case get columns 0 of Inl e \<Rightarrow> [] | Inr organism \<Rightarrow>
        if organism \<in> set [''Human'', ''Mouse'']
        then (case get columns 8 of Inl e \<Rightarrow> [] | Inr gene_symbol \<Rightarrow>
              case get columns 9 of Inl e \<Rightarrow> [] | Inr entrez \<Rightarrow>
                List.map_filter (pair_candidate columns organism)
                  (zip (bracket_list gene_symbol) (bracket_list entrez)))
        else [])"

definition cellmarker_candidates :: "string \<Rightarrow> marker_row list" where
  "cellmarker_candidates content = concat (map line_candidates (str_split [newline] content))"

text \<open>Keeping, of a list of rows, the first row of each key that is not in \<open>seen\<close>.\<close>

fun keep_first :: "(string \<times> string) set \<Rightarrow> marker_row list \<Rightarrow> marker_row list" where
  "keep_first seen [] = []"
| "keep_first seen (row # rows) =
     (if marker_key row \<in> seen then keep_first seen rows
      else row # keep_first (insert (marker_key row) seen) rows)"


section \<open>Properties of the string functions\<close>

lemma str_split_not_Nil: "str_split sep s \<noteq> []"
  by (induction sep s rule: str_split.induct) (auto split: list.splits)

lemma get_Inr_iff: "get xs i = Inr x \<longleftrightarrow> i < length xs \<and> x = xs ! i"
  by (auto simp: get_def)

lemma get_Inl_iff: "get xs i = Inl e \<longleftrightarrow> length xs \<le> i"
  by (cases e) (auto simp: get_def)

lemma three_columns:
  assumes "3 \<le> length (xs :: 'a list)"
  obtains a b c others where "xs = a # b # c # others"
  using assms by (cases xs; cases "tl xs"; cases "tl (tl xs)") auto


text \<open>What \<^verbatim>\<open>int\<close> accepts: blanks around the number, but not a separator such as \<^verbatim>\<open>0x1F\<close>.\<close>

lemma int_parses_examples:
  "int_parses '' 920'' \<and> int_parses (''920'' @ [newline]) \<and> int_parses ''+1_000''
   \<and> \<not> int_parses (CHR 0x1F # ''920'') \<and> \<not> int_parses ''NA'' \<and> \<not> int_parses []
   \<and> \<not> int_parses ''1__0'' \<and> \<not> int_parses ''9 20''"
  by (simp add: int_parses_def int_space_def isdigit_def)


section \<open>Properties of the homolog table\<close>

subsection \<open>One line\<close>

lemma homolog_line_short:
  "length (str_split [tab] line) < 3 \<Longrightarrow> homolog_line gh rel line st = Inl IndexError"
  unfolding homolog_line_def by (auto simp: get_def Let_def split: prod.splits)

lemma homolog_line_cases:
  assumes "str_split [tab] line = grp # tax # entrez # others"
  shows "homolog_line gh rel line (out, log) =
    (if tax \<notin> rel then Inr (out, log)
     else case Mapping.lookup gh (tax, entrez) of
        None \<Rightarrow> Inr (out @ [[grp, tax, entrez]], log)
      | Some new_id \<Rightarrow>
          if new_id = ''-'' then Inr (out, log @ [''Gene '' @ entrez @ '' is discontinued''])
          else Inr (out @ [[grp, tax, new_id]], log @ [''Gene '' @ entrez @ '' is now '' @ new_id]))"
  unfolding homolog_line_def using assms by (simp add: get_def split: option.splits)

lemma homolog_line_record:
  assumes "3 \<le> length (str_split [tab] line)"
  shows "\<exists>log'. homolog_line gh rel line (out, log) =
           Inr (out @ List.map_filter (spec_homolog_record gh rel) [line], log')"
proof -
  from assms obtain grp tax entrez others
    where cols: "str_split [tab] line = grp # tax # entrez # others"
    by (rule three_columns)
  show ?thesis
    by (simp add: homolog_line_cases [OF cols] spec_homolog_record_def cols resolve_def
        List.map_filter_simps split: option.splits)
qed

subsection \<open>The loop over the lines\<close>

lemma homolog_lines_map_filter:
  assumes "\<forall>line\<in>set lines. 3 \<le> length (str_split [tab] line)"
  shows "\<exists>log'. homolog_lines gh rel lines (out, log) =
           Inr (out @ List.map_filter (spec_homolog_record gh rel) lines, log')"
  using assms
proof (induction lines arbitrary: out log)
  case Nil
  then show ?case by (simp add: List.map_filter_simps)
next
  case (Cons line rest)
  then have "3 \<le> length (str_split [tab] line)" by simp
  then obtain log1 where step: "homolog_line gh rel line (out, log) =
      Inr (out @ List.map_filter (spec_homolog_record gh rel) [line], log1)"
    using homolog_line_record by blast
  from Cons obtain log2 where
    "homolog_lines gh rel rest (out @ List.map_filter (spec_homolog_record gh rel) [line], log1) =
      Inr ((out @ List.map_filter (spec_homolog_record gh rel) [line])
           @ List.map_filter (spec_homolog_record gh rel) rest, log2)"
    by (metis list.set_intros(2))
  with step show ?case
    by (auto simp: List.map_filter_simps split: option.splits)
qed

text \<open>
  Claim C1. When every line of the homolog text has its three fields, the table built is
  the header followed, in the order of the lines, by the record that the specification
  gives for each line: nothing for a line outside the relevant set or whose pair the
  history marks as discontinued, the record with the new id where the history gives one,
  and the record with the id unchanged where the history does not know the pair.
\<close>

theorem build_homologs_resolves:
  assumes "\<forall>line\<in>set (str_split [newline] homologs). 3 \<le> length (str_split [tab] line)"
  shows "\<exists>log. build_homologs homologs gh rel =
           Inr (homolog_header # List.map_filter (spec_homolog_record gh rel)
                                   (str_split [newline] homologs), log)"
  unfolding build_homologs_def
  using homolog_lines_map_filter [OF assms, of gh rel "[homolog_header]" "[]"] by simp

text \<open>
  The two examples of the specification: the line \<^verbatim>\<open>5 9606 123\<close> with a history that maps
  (9606, 123) to 456, and with one that maps it to \<^verbatim>\<open>-\<close>.
\<close>

theorem build_homologs_resolves_witness:
  "build_homologs (''5'' @ [tab] @ ''9606'' @ [tab] @ ''123'')
        (Mapping.update (''9606'', ''123'') ''456'' Mapping.empty) {''9606''}
      = Inr ([homolog_header, [''5'', ''9606'', ''456'']], [''Gene 123 is now 456''])
   \<and> build_homologs (''5'' @ [tab] @ ''9606'' @ [tab] @ ''123'')
        (Mapping.update (''9606'', ''123'') ''-'' Mapping.empty) {''9606''}
      = Inr ([homolog_header], [''Gene 123 is discontinued''])"
proof -
  have h: "\<forall>line\<in>set (str_split [newline] (''5'' @ [tab] @ ''9606'' @ [tab] @ ''123'')).
      3 \<le> length (str_split [tab] line)"
    by simp
  show ?thesis
    using
      build_homologs_resolves [OF h, of "Mapping.update (''9606'', ''123'') ''456'' Mapping.empty" "{''9606''}"]
      build_homologs_resolves [OF h, of "Mapping.update (''9606'', ''123'') ''-'' Mapping.empty" "{''9606''}"]
    by (simp add: build_homologs_def homolog_line_def get_def)
qed

subsection \<open>When the build raises\<close>

lemma homolog_line_returns:
  assumes "3 \<le> length (str_split [tab] line)"
  shows "\<exists>st'. homolog_line gh rel line st = Inr st'"
  using homolog_line_record [OF assms, of gh rel "fst st" "snd st"] by auto

lemma homolog_lines_error_iff:
  "homolog_lines gh rel lines st = Inl IndexError \<longleftrightarrow>
     (\<exists>line\<in>set lines. length (str_split [tab] line) < 3)"
proof (induction lines arbitrary: st)
  case Nil
  then show ?case by simp
next
  case (Cons line rest)
  show ?case
  proof (cases "length (str_split [tab] line) < 3")
    case True
    then show ?thesis by (simp add: homolog_line_short)
  next
    case False
    then obtain st' where "homolog_line gh rel line st = Inr st'"
      using homolog_line_returns [of line gh rel st] by auto
    with False Cons.IH [of st'] show ?thesis by simp
  qed
qed

lemma build_homologs_Inr_columns:
  assumes "build_homologs homologs gh rel = Inr st"
  shows "\<forall>line\<in>set (str_split [newline] homologs). 3 \<le> length (str_split [tab] line)"
proof (rule ccontr)
  assume "\<not> ?thesis"
  then have "\<exists>line\<in>set (str_split [newline] homologs). length (str_split [tab] line) < 3"
    by (auto simp: not_le)
  then have "build_homologs homologs gh rel = Inl IndexError"
    unfolding build_homologs_def by (simp only: homolog_lines_error_iff)
  with assms show False by simp
qed

lemma build_homologs_Inr_table:
  assumes "build_homologs homologs gh rel = Inr (out, log)"
  shows "out = homolog_header #
           List.map_filter (spec_homolog_record gh rel) (str_split [newline] homologs)"
proof -
  from assms
  have cols: "\<forall>line\<in>set (str_split [newline] homologs). 3 \<le> length (str_split [tab] line)"
    by (rule build_homologs_Inr_columns)
  from homolog_lines_map_filter [OF cols, of gh rel "[homolog_header]" "[]"] assms
  show ?thesis
    by (auto simp: build_homologs_def)
qed

text \<open>
  Claim C3, as the code has it. No exception is caught in \<^verbatim>\<open>prepare_data\<close>: a line with
  fewer than three tab-separated fields raises \<^verbatim>\<open>IndexError\<close> at its subscript, the loop
  is left, and no table is returned or written, whatever the other lines are. The build
  raises exactly when the text has such a line.
\<close>

theorem malformed_homolog_line_aborts:
  "build_homologs homologs gh rel = Inl IndexError \<longleftrightarrow>
     (\<exists>line\<in>set (str_split [newline] homologs). length (str_split [tab] line) < 3)"
  unfolding build_homologs_def by (rule homolog_lines_error_iff)

theorem malformed_homolog_line_aborts_witness:
  "length (str_split [tab] (''5'' @ [tab] @ ''9606'')) < 3
   \<and> build_homologs
       (''1'' @ [tab] @ ''9606'' @ [tab] @ ''11'' @ [newline] @ ''5'' @ [tab] @ ''9606'')
       Mapping.empty {''9606''} = Inl IndexError"
  using malformed_homolog_line_aborts
    [of "''1'' @ [tab] @ ''9606'' @ [tab] @ ''11'' @ [newline] @ ''5'' @ [tab] @ ''9606''"
        Mapping.empty "{''9606''}"]
  by simp

text \<open>
  The claim as the specification words it fails: of the three lines below the second has
  two fields, and the two well-formed lines around it are not emitted, since the build
  returns no table at all.
\<close>

theorem malformed_homolog_line_counterexample:
  "build_homologs
     (''1'' @ [tab] @ ''9606'' @ [tab] @ ''11'' @ [newline] @
      ''5'' @ [tab] @ ''9606'' @ [newline] @
      ''2'' @ [tab] @ ''9606'' @ [tab] @ ''22'')
     Mapping.empty {''9606''} = Inl IndexError"
  by (simp add: build_homologs_def homolog_line_def get_def)

subsection \<open>The taxonomy filter\<close>

lemma spec_homolog_record_Some:
  assumes "spec_homolog_record gh rel line = Some r"
  shows "length r = 3 \<and> r ! 1 \<in> rel"
  using assms unfolding spec_homolog_record_def
  by (auto split: list.splits if_splits resolution.splits)

lemma homolog_line_irrelevant:
  assumes "homolog_line gh rel line st = Inr st'"
    and "\<not> (\<exists>tax\<in>rel. get (str_split [tab] line) 1 = Inr tax)"
  shows "st' = st"
  using assms unfolding homolog_line_def
  by (auto simp: Let_def split: prod.splits sum.splits if_splits)

lemma homolog_lines_filter:
  assumes "homolog_lines gh rel lines st = Inr st'"
  shows "homolog_lines gh rel
           (filter (\<lambda>line. \<exists>tax\<in>rel. get (str_split [tab] line) 1 = Inr tax) lines) st = Inr st'"
  using assms
proof (induction lines arbitrary: st)
  case Nil
  then show ?case by simp
next
  case (Cons line rest)
  then obtain st1 where step: "homolog_line gh rel line st = Inr st1"
    and rest: "homolog_lines gh rel rest st1 = Inr st'"
    by (auto split: sum.splits)
  show ?case
  proof (cases "\<exists>tax\<in>rel. get (str_split [tab] line) 1 = Inr tax")
    case True
    with step Cons.IH [OF rest] show ?thesis by simp
  next
    case False
    with step have "st1 = st" by (rule homolog_line_irrelevant)
    with False Cons.IH [OF rest] show ?thesis by simp
  qed
qed

text \<open>
  Claim C6. Whenever the build returns a table, the table is the header followed by
  records of three fields whose taxonomy id (the second field) is in the set passed in;
  and the lines whose taxonomy id is outside the set contribute nothing: the loop run on
  the lines that are left when they are removed ends in the same table and the same log.
\<close>

theorem homolog_records_relevant:
  assumes "build_homologs homologs gh rel = Inr (out, log)"
  shows "(\<exists>records. out = homolog_header # records
            \<and> (\<forall>r\<in>set records. length r = 3 \<and> r ! 1 \<in> rel))
         \<and> homolog_lines gh rel
             (filter (\<lambda>line. \<exists>tax\<in>rel. get (str_split [tab] line) 1 = Inr tax)
                (str_split [newline] homologs))
             ([homolog_header], []) = Inr (out, log)"
proof
  have "\<forall>r\<in>set (List.map_filter (spec_homolog_record gh rel) (str_split [newline] homologs)).
      length r = 3 \<and> r ! 1 \<in> rel"
  proof
    fix r
    assume "r \<in> set (List.map_filter (spec_homolog_record gh rel) (str_split [newline] homologs))"
    then obtain line where "spec_homolog_record gh rel line = Some r"
      by (auto simp: List.map_filter_def)
    then show "length r = 3 \<and> r ! 1 \<in> rel"
      by (rule spec_homolog_record_Some)
  qed
  with build_homologs_Inr_table [OF assms]
  show "\<exists>records. out = homolog_header # records
            \<and> (\<forall>r\<in>set records. length r = 3 \<and> r ! 1 \<in> rel)"
    by blast
next
  from assms show "homolog_lines gh rel
             (filter (\<lambda>line. \<exists>tax\<in>rel. get (str_split [tab] line) 1 = Inr tax)
                (str_split [newline] homologs))
             ([homolog_header], []) = Inr (out, log)"
    unfolding build_homologs_def by (rule homolog_lines_filter)
qed

theorem homolog_records_relevant_witness:
  "build_homologs
     (''1'' @ [tab] @ ''9606'' @ [tab] @ ''11'' @ [newline] @ ''2'' @ [tab] @ ''4932'' @ [tab] @ ''22'')
     Mapping.empty {''9606''} = Inr ([homolog_header, [''1'', ''9606'', ''11'']], [])
   \<and> (\<exists>records. [homolog_header, [''1'', ''9606'', ''11'']] = homolog_header # records
         \<and> list_all (\<lambda>r. length r = 3 \<and> r ! 1 \<in> {''9606''}) records)
   \<and> homolog_lines Mapping.empty {''9606''} [''1'' @ [tab] @ ''9606'' @ [tab] @ ''11'']
        ([homolog_header], []) = Inr ([homolog_header, [''1'', ''9606'', ''11'']], [])"
proof -
  have run: "build_homologs
     (''1'' @ [tab] @ ''9606'' @ [tab] @ ''11'' @ [newline] @ ''2'' @ [tab] @ ''4932'' @ [tab] @ ''22'')
     Mapping.empty {''9606''} = Inr ([homolog_header, [''1'', ''9606'', ''11'']], [])"
    by (simp add: build_homologs_def homolog_line_def get_def)
  show ?thesis
    using run homolog_records_relevant [OF run] by (auto simp: list_all_iff get_def)
qed

subsection \<open>One look at the history\<close>

text \<open>
  Claim C10. The history is consulted once, for the pair of the line itself. When it gives
  a new id \<open>b\<close> for the gene \<open>a\<close> of a line, the table holds the record with \<open>b\<close>, whatever
  the history says about \<open>b\<close>: no hypothesis speaks of the pair \<open>(tax, b)\<close>, so it may be
  marked as discontinued or be replaced in its turn.
\<close>

theorem resolution_is_single_step:
  assumes "build_homologs homologs gh rel = Inr (out, log)"
    and "line \<in> set (str_split [newline] homologs)"
    and "str_split [tab] line = grp # tax # a # others"
    and "tax \<in> rel"
    and "Mapping.lookup gh (tax, a) = Some b"
    and "b \<noteq> ''-''"
  shows "[grp, tax, b] \<in> set out"
proof -
  have "spec_homolog_record gh rel line = Some [grp, tax, b]"
    using assms(3-6) by (simp add: spec_homolog_record_def resolve_def)
  with assms(2)
  have "[grp, tax, b] \<in> set (List.map_filter (spec_homolog_record gh rel) (str_split [newline] homologs))"
    by (force simp: List.map_filter_def)
  with build_homologs_Inr_table [OF assms(1)] show ?thesis by simp
qed

text \<open>
  The history below replaces 123 by 456 and marks 456 as discontinued; the line of gene
  123 is emitted with 456.
\<close>

theorem resolution_is_single_step_witness:
  "build_homologs (''5'' @ [tab] @ ''9606'' @ [tab] @ ''123'')
     (Mapping.update (''9606'', ''456'') ''-''
        (Mapping.update (''9606'', ''123'') ''456'' Mapping.empty))
     {''9606''}
     = Inr ([homolog_header, [''5'', ''9606'', ''456'']], [''Gene 123 is now 456''])
   \<and> [''5'', ''9606'', ''456''] \<in> set [homolog_header, [''5'', ''9606'', ''456'']]"
proof -
  have run: "build_homologs (''5'' @ [tab] @ ''9606'' @ [tab] @ ''123'')
     (Mapping.update (''9606'', ''456'') ''-''
        (Mapping.update (''9606'', ''123'') ''456'' Mapping.empty))
     {''9606''}
     = Inr ([homolog_header, [''5'', ''9606'', ''456'']], [''Gene 123 is now 456''])"
    by (simp add: build_homologs_def homolog_line_def get_def)
  have line: "''5'' @ [tab] @ ''9606'' @ [tab] @ ''123''
      \<in> set (str_split [newline] (''5'' @ [tab] @ ''9606'' @ [tab] @ ''123''))"
    by simp
  have cols: "str_split [tab] (''5'' @ [tab] @ ''9606'' @ [tab] @ ''123'')
      = ''5'' # ''9606'' # ''123'' # []"
    by simp
  have look: "Mapping.lookup (Mapping.update (''9606'', ''456'') ''-''
        (Mapping.update (''9606'', ''123'') ''456'' Mapping.empty)) (''9606'', ''123'') = Some ''456''"
    by simp
  show ?thesis
    using run resolution_is_single_step [OF run line cols _ look] by simp
qed

section \<open>Properties of the gene history\<close>

lemma history_line_short:
  "length (str_split [tab] (str_strip line)) < 3 \<Longrightarrow> history_line line gh = Inl IndexError"
  unfolding history_line_def by (auto simp: get_def Let_def)

lemma history_line_returns:
  assumes "3 \<le> length (str_split [tab] (str_strip line))"
  shows "history_line line gh =
           Inr (Mapping.update (str_split [tab] (str_strip line) ! 0,
                                str_split [tab] (str_strip line) ! 2)
                  (str_split [tab] (str_strip line) ! 1) gh)"
  unfolding history_line_def using assms by (simp add: get_def Let_def str_split_not_Nil)

lemma history_lines_error_iff:
  "history_lines lines gh = Inl IndexError \<longleftrightarrow>
     (\<exists>line\<in>set lines. length (str_split [tab] (str_strip line)) < 3)"
proof (induction lines arbitrary: gh)
  case Nil
  then show ?case by simp
next
  case (Cons line rest)
  show ?case
  proof (cases "length (str_split [tab] (str_strip line)) < 3")
    case True
    then show ?thesis by (simp add: history_line_short)
  next
    case False
    then have "3 \<le> length (str_split [tab] (str_strip line))" by simp
    from history_line_returns [OF this, of gh] False Cons.IH show ?thesis by simp
  qed
qed

lemma history_lines_stored:
  assumes "\<forall>line\<in>set lines. 3 \<le> length (str_split [tab] (str_strip line))"
  shows "history_lines lines gh =
           Inr (foldl (\<lambda>gh line. Mapping.update (str_split [tab] (str_strip line) ! 0,
                                                  str_split [tab] (str_strip line) ! 2)
                                    (str_split [tab] (str_strip line) ! 1) gh) gh lines)"
  using assms by (induction lines arbitrary: gh) (simp_all add: history_line_returns)

lemma load_gene_history_raises:
  "load_gene_history history_content = Inl e \<Longrightarrow>
     homolog_prepare_data content history_content common_tax_ids = Inl e"
  by (simp add: homolog_prepare_data_def)

text \<open>
  Claim C4, as the code has it. No exception is caught in \<^verbatim>\<open>load_gene_history\<close>: a line
  after the header that has fewer than three tab-separated columns once stripped raises
  \<^verbatim>\<open>IndexError\<close>. The line is not skipped and the remaining lines are not processed: no
  mapping is returned, and \<^verbatim>\<open>prepare_data\<close>, which called the function, raises the
  same error. The function raises exactly when the file has such a line.
\<close>

theorem malformed_history_line_aborts:
  "(load_gene_history history_content = Inl IndexError \<longleftrightarrow>
      (\<exists>line\<in>set (tl (readlines history_content)).
          length (str_split [tab] (str_strip line)) < 3))
   \<and> (load_gene_history history_content = Inl IndexError \<longrightarrow>
        homolog_prepare_data content history_content common_tax_ids = Inl IndexError)"
proof (intro conjI impI)
  show "load_gene_history history_content = Inl IndexError \<longleftrightarrow>
      (\<exists>line\<in>set (tl (readlines history_content)).
          length (str_split [tab] (str_strip line)) < 3)"
    unfolding load_gene_history_def by (rule history_lines_error_iff)
next
  assume "load_gene_history history_content = Inl IndexError"
  then show "homolog_prepare_data content history_content common_tax_ids = Inl IndexError"
    by (rule load_gene_history_raises)
qed

theorem malformed_history_line_aborts_witness:
  "length (str_split [tab] (str_strip (''9606'' @ [tab] @ ''5'' @ [newline]))) < 3
   \<and> load_gene_history
       (''tax'' @ [tab] @ ''GeneID'' @ [tab] @ ''Discontinued'' @ [newline] @
        ''9606'' @ [tab] @ ''5'' @ [newline])
       = Inl IndexError
   \<and> homolog_prepare_data (''5'' @ [tab] @ ''9606'' @ [tab] @ ''123'')
       (''tax'' @ [tab] @ ''GeneID'' @ [tab] @ ''Discontinued'' @ [newline] @
        ''9606'' @ [tab] @ ''5'' @ [newline])
       {''9606''}
       = Inl IndexError"
  using malformed_history_line_aborts
    [of "''tax'' @ [tab] @ ''GeneID'' @ [tab] @ ''Discontinued'' @ [newline] @
         ''9606'' @ [tab] @ ''5'' @ [newline]"
        "''5'' @ [tab] @ ''9606'' @ [tab] @ ''123''" "{''9606''}"]
  by (simp add: str_strip_def isspace_def)

text \<open>
  The claim as the specification words it fails: the file below has a header and three
  lines, of which the second has two columns; the two entries of the other lines are not
  kept, since no mapping is returned.
\<close>

theorem malformed_history_line_counterexample:
  "load_gene_history
     (''tax'' @ [tab] @ ''GeneID'' @ [tab] @ ''Discontinued'' @ [newline] @
      ''9606'' @ [tab] @ ''-'' @ [tab] @ ''123'' @ [newline] @
      ''9606'' @ [tab] @ ''5'' @ [newline] @
      ''9606'' @ [tab] @ ''456'' @ [tab] @ ''77'' @ [newline])
     = Inl IndexError"
  by (simp add: load_gene_history_def history_line_def get_def str_strip_def isspace_def)

text \<open>A file whose lines all have their three columns gives the mapping.\<close>

lemma load_gene_history_example:
  "map_sum id (\<lambda>gh. (Mapping.lookup gh (''9606'', ''123''), Mapping.lookup gh (''9606'', ''77''),
                      Mapping.lookup gh (''9606'', ''5'')))
     (load_gene_history
       (''tax'' @ [tab] @ ''GeneID'' @ [tab] @ ''Discontinued'' @ [newline] @
        ''9606'' @ [tab] @ ''-'' @ [tab] @ ''123'' @ [newline] @
        ''9606'' @ [tab] @ ''456'' @ [tab] @ ''77'' @ [newline]))
     = Inr (Some ''-'', Some ''456'', None)"
  by (simp add: load_gene_history_def history_line_def get_def str_strip_def isspace_def)

section \<open>Properties of the gene information\<close>

subsection \<open>Parsing never raises\<close>

lemma info_line_returns: "\<exists>gi'. info_line relevant line gi = Inr gi'"
  unfolding info_line_def by (simp add: get_def Let_def str_split_not_Nil)

lemma info_lines_returns: "\<exists>gi'. info_lines relevant lines gi = Inr gi'"
proof (induction lines arbitrary: gi)
  case Nil
  then show ?case by simp
next
  case (Cons line rest)
  obtain gi1 where "info_line relevant line gi = Inr gi1"
    using info_line_returns by blast
  with Cons.IH [of gi1] show ?case by simp
qed

subsection \<open>The guard\<close>

lemma handle_response_guard:
  "\<not> Mapping.is_empty (gene_info g) \<Longrightarrow> geneinfo_handle_response content g = Inr g"
  by (simp add: geneinfo_handle_response_def)

lemma handle_response_parse:
  assumes "Mapping.is_empty (gene_info g)"
    and "info_lines (relevant_taxonomy_ids g) (tl (readlines content)) Mapping.empty = Inr gi"
  shows "geneinfo_handle_response content g = Inr (g\<lparr>gene_info := gi\<rparr>)"
  using assms by (simp add: geneinfo_handle_response_def)

text \<open>
  Claim C5. A call of \<^verbatim>\<open>handle_response\<close> returns, and a second call with the same
  response, made in the state the first one left, changes nothing: the mapping from
  taxonomy ids to record sets is the same after two calls as after one. When the mapping
  is not empty at the call, the guard returns at once and the state is the one before.
\<close>

theorem handle_response_idempotent:
  "\<exists>g'. geneinfo_handle_response content g = Inr g'
        \<and> geneinfo_handle_response content g' = Inr g'
        \<and> (\<not> Mapping.is_empty (gene_info g) \<longrightarrow> g' = g)"
proof (cases "Mapping.is_empty (gene_info g)")
  case False
  then show ?thesis by (simp add: handle_response_guard)
next
  case True
  obtain gi where gi: "info_lines (relevant_taxonomy_ids g) (tl (readlines content)) Mapping.empty = Inr gi"
    using info_lines_returns by blast
  let ?g' = "g\<lparr>gene_info := gi\<rparr>"
  have first: "geneinfo_handle_response content g = Inr ?g'"
    using True gi by (rule handle_response_parse)
  have second: "geneinfo_handle_response content ?g' = Inr ?g'"
  proof (cases "Mapping.is_empty gi")
    case False
    then show ?thesis by (simp add: handle_response_guard)
  next
    case True
    then show ?thesis using gi by (simp add: geneinfo_handle_response_def)
  qed
  from first second True show ?thesis by simp
qed

text \<open>
  The first call below parses two lines, of which one is of a relevant taxonomy id; the
  second call, with the same response, finds the mapping filled and returns it as it is.
\<close>

theorem handle_response_idempotent_witness:
  "\<not> Mapping.is_empty (Mapping.update ''9606'' {[''9606'', ''1'', ''A1BG'']} Mapping.empty)
   \<and> geneinfo_handle_response
       (''#tax_id'' @ [newline] @ ''9606'' @ [tab] @ ''1'' @ [tab] @ ''A1BG'' @ [newline])
       \<lparr>gene_info = Mapping.update ''9606'' {[''9606'', ''1'', ''A1BG'']} Mapping.empty,
        relevant_taxonomy_ids = {''9606''}\<rparr>
     = Inr \<lparr>gene_info = Mapping.update ''9606'' {[''9606'', ''1'', ''A1BG'']} Mapping.empty,
            relevant_taxonomy_ids = {''9606''}\<rparr>"
  using handle_response_idempotent
    [of "''#tax_id'' @ [newline] @ ''9606'' @ [tab] @ ''1'' @ [tab] @ ''A1BG'' @ [newline]"
        "\<lparr>gene_info = Mapping.update ''9606'' {[''9606'', ''1'', ''A1BG'']} Mapping.empty,
          relevant_taxonomy_ids = {''9606''}\<rparr>"]
  by auto

lemma handle_response_example:
  "map_sum id (\<lambda>g. (Mapping.lookup (gene_info g) ''9606'', Mapping.lookup (gene_info g) ''4932'',
                     Mapping.is_empty (gene_info g)))
     (geneinfo_handle_response
        (''#tax_id'' @ [newline] @ ''9606'' @ [tab] @ ''1'' @ [tab] @ ''A1BG'' @ [newline]
          @ ''4932'' @ [tab] @ ''2'' @ [tab] @ ''X'' @ [newline])
        \<lparr>gene_info = Mapping.empty, relevant_taxonomy_ids = {''9606''}\<rparr>)
     = Inr (Some {[''9606'', ''1'', ''A1BG'']}, None, False)"
  by (simp add: geneinfo_handle_response_def info_line_def get_def str_strip_def isspace_def
      Mapping.lookup_map_default' Mapping.lookup_default_def)

text \<open>
  Claim C9. From a state whose mapping is not empty, any run of further calls, whatever
  their responses, returns at the guard each time and leaves the whole state, the mapping
  included, as it was.
\<close>

theorem handle_response_frozen:
  "\<not> Mapping.is_empty (gene_info g) \<Longrightarrow> geneinfo_handle_responses contents g = Inr g"
  by (induction contents) (simp_all add: handle_response_guard)

text \<open>
  Two later calls with responses that differ from the one parsed first, and from each
  other: the mapping still holds the one record of the first parse.
\<close>

theorem handle_response_frozen_witness:
  "geneinfo_handle_responses
     [''#tax_id'' @ [newline] @ ''9606'' @ [tab] @ ''2'' @ [tab] @ ''A2M'' @ [newline],
      ''#tax_id'' @ [newline] @ ''9606'' @ [tab] @ ''9'' @ [tab] @ ''NAT1'' @ [newline]]
     \<lparr>gene_info = Mapping.update ''9606'' {[''9606'', ''1'', ''A1BG'']} Mapping.empty,
      relevant_taxonomy_ids = {''9606''}\<rparr>
   = Inr \<lparr>gene_info = Mapping.update ''9606'' {[''9606'', ''1'', ''A1BG'']} Mapping.empty,
          relevant_taxonomy_ids = {''9606''}\<rparr>"
  using handle_response_frozen
    [of "\<lparr>gene_info = Mapping.update ''9606'' {[''9606'', ''1'', ''A1BG'']} Mapping.empty,
          relevant_taxonomy_ids = {''9606''}\<rparr>"
        "[''#tax_id'' @ [newline] @ ''9606'' @ [tab] @ ''2'' @ [tab] @ ''A2M'' @ [newline],
          ''#tax_id'' @ [newline] @ ''9606'' @ [tab] @ ''9'' @ [tab] @ ''NAT1'' @ [newline]]"]
  by simp

subsection \<open>The stored row\<close>

lemma and_then_get:
  "and_then (get xs i) f = (if i < length xs then f (xs ! i) else Inl IndexError)"
  by (simp add: get_def)

lemma gene_row_short:
  "length gene < 15 \<Longrightarrow> gene_row species synonyms_json db_refs_json gene = Inl IndexError"
  unfolding gene_row_def and_then_get by simp

lemma gene_row_returns:
  assumes "15 \<le> length gene"
  shows "gene_row species synonyms_json db_refs_json gene =
     Inr [Some species, Some (gene ! 0), Some (gene ! 1), Some (gene ! 2),
          Some (synonyms_json (gene ! 4)), Some (db_refs_json (gene ! 5)),
          dash_to_none (gene ! 8), dash_to_none (gene ! 3), dash_to_none (gene ! 6),
          dash_to_none (gene ! 7), dash_to_none (gene ! 9), dash_to_none (gene ! 10),
          dash_to_none (gene ! 11), dash_to_none (gene ! 12), dash_to_none (gene ! 13),
          Some (gene ! 14)]"
  unfolding gene_row_def and_then_get using assms by auto

text \<open>
  Claim C8, as the code has it. For a record of at least fifteen fields the row has sixteen
  values. Nine of them are null exactly when the field they come from is a dash:
  description, locus tag, chromosome, map location, type of gene, the three nomenclature
  fields and the other designations (row columns 6 to 14, from the fields 8, 3, 6, 7, 9,
  10, 11, 12 and 13). Taxonomy id, gene id, symbol and modification date are stored as
  they are, dash or not, and are never null; species, synonyms and external references
  are not null either.
\<close>

theorem gene_row_nulls:
  assumes "15 \<le> length gene"
  shows "\<exists>row. gene_row species synonyms_json db_refs_json gene = Inr row
           \<and> length row = 16
           \<and> (\<forall>(column, field)\<in>set [(6, 8), (7, 3), (8, 6), (9, 7), (10, 9), (11, 10),
                                       (12, 11), (13, 12), (14, 13)].
                 row ! column = (if gene ! field = ''-'' then None else Some (gene ! field)))
           \<and> row ! 1 = Some (gene ! 0)
           \<and> row ! 2 = Some (gene ! 1)
           \<and> row ! 3 = Some (gene ! 2)
           \<and> row ! 15 = Some (gene ! 14)
           \<and> row ! 0 = Some species
           \<and> row ! 4 = Some (synonyms_json (gene ! 4))
           \<and> row ! 5 = Some (db_refs_json (gene ! 5))"
  by (simp add: gene_row_returns [OF assms] dash_to_none_def)

theorem gene_row_nulls_witness:
  "gene_row ''Homo sapiens'' id id
     [''9606'', ''1'', ''A1BG'', ''-'', ''A1B|ABG'', ''MIM:138670'', ''19'', ''19q13.43'',
      ''alpha-1-B glycoprotein'', ''protein-coding'', ''A1BG'', ''alpha-1-B glycoprotein'',
      ''O'', ''-'', ''20190601'']
   = Inr [Some ''Homo sapiens'', Some ''9606'', Some ''1'', Some ''A1BG'', Some ''A1B|ABG'',
          Some ''MIM:138670'', Some ''alpha-1-B glycoprotein'', None, Some ''19'',
          Some ''19q13.43'', Some ''protein-coding'', Some ''A1BG'',
          Some ''alpha-1-B glycoprotein'', Some ''O'', None, Some ''20190601'']"
proof -
  have len: "15 \<le> length [''9606'', ''1'', ''A1BG'', ''-'', ''A1B|ABG'', ''MIM:138670'', ''19'',
      ''19q13.43'', ''alpha-1-B glycoprotein'', ''protein-coding'', ''A1BG'',
      ''alpha-1-B glycoprotein'', ''O'', ''-'', ''20190601'']"
    by simp
  show ?thesis
    using gene_row_nulls [OF len, of "''Homo sapiens''" id id]
    by (simp add: gene_row_def get_def dash_to_none_def)
qed

text \<open>
  The claim as the specification words it fails for the symbol and the modification date:
  in the record below both are a dash, and both are stored as the dash, not as null.
\<close>

theorem gene_row_nulls_counterexample:
  "map_sum id (\<lambda>row. (row ! 3, row ! 15))
     (gene_row ''Homo sapiens'' id id
        [''9606'', ''1'', ''-'', ''-'', ''-'', ''-'', ''-'', ''-'', ''-'', ''-'', ''-'', ''-'',
         ''-'', ''-'', ''-''])
   = Inr (Some ''-'', Some ''-'')"
  by (simp add: gene_row_def get_def dash_to_none_def)

section \<open>Properties of the marker tables\<close>

subsection \<open>Keeping first occurrences\<close>

lemma keep_first_keys:
  "marker_key ` set (keep_first seen rows) = marker_key ` set rows - seen"
  by (induction rows arbitrary: seen) auto

lemma keep_first_distinct: "distinct (map marker_key (keep_first seen rows))"
proof (induction rows arbitrary: seen)
  case Nil
  then show ?case by simp
next
  case (Cons row rows)
  have "marker_key row \<notin> marker_key ` set (keep_first (insert (marker_key row) seen) rows)"
    by (simp add: keep_first_keys)
  with Cons show ?case by simp
qed

lemma keep_first_append:
  "keep_first seen (xs @ ys) =
     keep_first seen xs @ keep_first (seen \<union> marker_key ` set xs) ys"
proof (induction xs arbitrary: seen)
  case Nil
  then show ?case by simp
next
  case (Cons x xs)
  show ?case
  proof (cases "marker_key x \<in> seen")
    case True
    then have "seen \<union> marker_key ` set (x # xs) = seen \<union> marker_key ` set xs" by auto
    with True Cons show ?thesis by simp
  next
    case False
    have "seen \<union> marker_key ` set (x # xs) = insert (marker_key x) seen \<union> marker_key ` set xs"
      by auto
    with False Cons show ?thesis by simp
  qed
qed

lemma keep_first_find:
  assumes "r \<in> set (keep_first seen rows)"
  shows "find (\<lambda>c. marker_key c = marker_key r) rows = Some r"
  using assms
proof (induction rows arbitrary: seen)
  case Nil
  then show ?case by simp
next
  case (Cons x rows)
  show ?case
  proof (cases "marker_key x \<in> seen")
    case True
    with Cons.prems have in_rest: "r \<in> set (keep_first seen rows)" by simp
    then have "marker_key r \<in> marker_key ` set (keep_first seen rows)" by (rule imageI)
    then have "marker_key r \<notin> seen" by (simp add: keep_first_keys)
    with True have "marker_key x \<noteq> marker_key r" by auto
    with Cons.IH [OF in_rest] show ?thesis by simp
  next
    case False
    with Cons.prems consider "r = x" | "r \<in> set (keep_first (insert (marker_key x) seen) rows)"
      by auto
    then show ?thesis
    proof cases
      case 1
      then show ?thesis by simp
    next
      case 2
      then have "marker_key r \<in> marker_key ` set (keep_first (insert (marker_key x) seen) rows)"
        by (rule imageI)
      then have "marker_key x \<noteq> marker_key r" by (auto simp: keep_first_keys)
      with Cons.IH [OF 2] show ?thesis by simp
    qed
  qed
qed

lemma keep_first_subseq: "subseq (keep_first seen rows) rows"
  by (induction rows arbitrary: seen) auto

subsection \<open>The loops of the CellMarker table\<close>

lemma pair_candidate_key:
  "pair_candidate columns organism (symbol, entrez_id) = Some row \<Longrightarrow>
     get columns 5 = Inr cell_name \<Longrightarrow> marker_key row = (cell_name, entrez_id)"
  by (auto simp: pair_candidate_def marker_key_def split: if_splits sum.splits)

lemma cellmarker_pairs_keep_first:
  assumes "cellmarker_pairs columns organism pairs (unique_rows, data) = Inr (unique_rows', data')"
  shows "data' = data @ keep_first unique_rows (List.map_filter (pair_candidate columns organism) pairs)
       \<and> unique_rows' = unique_rows \<union>
            marker_key ` set (List.map_filter (pair_candidate columns organism) pairs)"
  using assms
proof (induction pairs arbitrary: unique_rows data)
  case Nil
  then show ?case by (simp add: List.map_filter_simps)
next
  case (Cons pair rest)
  obtain symbol entrez_id where pair: "pair = (symbol, entrez_id)" by (cases pair)
  show ?case
  proof (cases "int_parses entrez_id")
    case False
    then have "pair_candidate columns organism pair = None"
      by (simp add: pair pair_candidate_def)
    moreover from Cons.prems False
    have "cellmarker_pairs columns organism rest (unique_rows, data) = Inr (unique_rows', data')"
      by (simp add: pair)
    ultimately show ?thesis
      using Cons.IH by (simp add: List.map_filter_simps)
  next
    case True
    with Cons.prems obtain cell_name where cell: "get columns 5 = Inr cell_name"
      by (auto simp: pair split: sum.splits)
    show ?thesis
    proof (cases "(cell_name, entrez_id) \<in> unique_rows")
      case seen: True
      from Cons.prems True cell seen
      have run: "cellmarker_pairs columns organism rest (unique_rows, data) = Inr (unique_rows', data')"
        by (simp add: pair)
      show ?thesis
      proof (cases "pair_candidate columns organism pair")
        case None
        with Cons.IH [OF run] show ?thesis by (simp add: List.map_filter_simps)
      next
        case (Some row)
        then have "marker_key row = (cell_name, entrez_id)"
          using cell pair pair_candidate_key by blast
        with seen have "marker_key row \<in> unique_rows" by simp
        then show ?thesis
          using Cons.IH [OF run] Some by (auto simp: List.map_filter_simps)
      qed
    next
      case unseen: False
      with Cons.prems True cell obtain pubmed_id where pm: "get columns 13 = Inr pubmed_id"
        by (auto simp: pair split: sum.splits)
      let ?row = "[organism, symbol, cell_name, pubmed_id,
                   (if int_parses pubmed_id
                    then ''https://www.ncbi.nlm.nih.gov/pubmed/?term='' @ pubmed_id
                    else ''?''),
                   entrez_id]"
      have cand: "pair_candidate columns organism pair = Some ?row"
        using True cell pm by (simp add: pair pair_candidate_def)
      have key: "marker_key ?row = (cell_name, entrez_id)"
        by (simp add: marker_key_def)
      from Cons.prems True cell unseen pm
      have run: "cellmarker_pairs columns organism rest
                   (insert (cell_name, entrez_id) unique_rows, data @ [?row]) = Inr (unique_rows', data')"
        by (simp add: pair Let_def)
      from Cons.IH [OF run] cand key unseen show ?thesis
        by (simp add: List.map_filter_simps)
    qed
  qed
qed

lemma cellmarker_line_candidates:
  assumes "get (str_split [tab] line) 0 = Inr organism"
    and "organism \<in> set [''Human'', ''Mouse'']"
    and "get (str_split [tab] line) 8 = Inr gene_symbol"
    and "get (str_split [tab] line) 9 = Inr entrez"
  shows "line_candidates line =
           List.map_filter (pair_candidate (str_split [tab] line) organism)
             (zip (bracket_list gene_symbol) (bracket_list entrez))"
  using assms by (simp add: line_candidates_def)

lemma cellmarker_line_no_candidates:
  assumes "get (str_split [tab] line) 0 = Inr organism"
    and "organism \<notin> set [''Human'', ''Mouse'']"
  shows "line_candidates line = []"
  using assms by (simp add: line_candidates_def)

lemma cellmarker_lines_keep_first:
  assumes "cellmarker_lines lines (unique_rows, data) = Inr (unique_rows', data')"
  shows "data' = data @ keep_first unique_rows (concat (map line_candidates lines))
       \<and> unique_rows' = unique_rows \<union> marker_key ` set (concat (map line_candidates lines))"
  using assms
proof (induction lines arbitrary: unique_rows data)
  case Nil
  then show ?case by simp
next
  case (Cons line rest)
  from Cons.prems obtain organism where org: "get (str_split [tab] line) 0 = Inr organism"
    by (auto simp: Let_def split: sum.splits)
  show ?case
  proof (cases "organism \<in> set [''Human'', ''Mouse'']")
    case False
    with Cons.prems org
    have "cellmarker_lines rest (unique_rows, data) = Inr (unique_rows', data')"
      by (simp add: Let_def)
    from Cons.IH [OF this] cellmarker_line_no_candidates [OF org False]
    show ?thesis by simp
  next
    case True
    with Cons.prems org obtain gene_symbol entrez u1 d1
      where sym: "get (str_split [tab] line) 8 = Inr gene_symbol"
        and ids: "get (str_split [tab] line) 9 = Inr entrez"
        and inner: "cellmarker_pairs (str_split [tab] line) organism
                      (zip (bracket_list gene_symbol) (bracket_list entrez)) (unique_rows, data)
                    = Inr (u1, d1)"
        and outer: "cellmarker_lines rest (u1, d1) = Inr (unique_rows', data')"
      by (auto simp: Let_def split: sum.splits)
    note cands = cellmarker_line_candidates [OF org True sym ids]
    from cellmarker_pairs_keep_first [OF inner] cands
    have d1: "d1 = data @ keep_first unique_rows (line_candidates line)"
      and u1: "u1 = unique_rows \<union> marker_key ` set (line_candidates line)"
      by simp_all
    from Cons.IH [OF outer] d1 u1 show ?thesis
      by (simp add: keep_first_append Un_assoc image_Un)
  qed
qed

lemma cellmarker_data_keep_first:
  assumes "cellmarker_data content = Inr data"
  shows "data = keep_first {} (cellmarker_candidates content)"
proof -
  from assms obtain unique_rows
    where "cellmarker_lines (str_split [newline] content) ({}, []) = Inr (unique_rows, data)"
    by (auto simp: cellmarker_data_def split: sum.splits)
  from cellmarker_lines_keep_first [OF this] show ?thesis
    by (simp add: cellmarker_candidates_def)
qed

subsection \<open>The loops of the PanglaoDB table\<close>

lemma organism_mapper_Some:
  "organism_mapper org = Some name \<longleftrightarrow>
     (org = ''Mm'' \<and> name = ''Mouse'') \<or> (org = ''Hs'' \<and> name = ''Human'')"
  by (auto simp: organism_mapper_def)

lemma org_records_Nil: "org_records columns name [] = []"
  by (simp add: org_records_def split: sum.splits)

lemma org_records_skip:
  "organism_mapper org \<noteq> Some name \<Longrightarrow>
     org_records columns name (org # rest) = org_records columns name rest"
  by (simp add: org_records_def split: sum.splits)

lemma org_records_keep:
  assumes "organism_mapper org = Some name"
    and "get columns 1 = Inr gene_symbol"
    and "get columns 2 = Inr cell_type"
  shows "org_records columns name (org # rest) =
           [name, gene_symbol, cell_type, ''PanglaoDB'', ''https://panglaodb.se/'']
             # org_records columns name rest"
  using assms by (simp add: org_records_def)

lemma panglao_orgs_records:
  assumes "panglao_orgs columns orgs (mouse, human) = Inr (mouse', human')"
  shows "mouse' = mouse @ org_records columns ''Mouse'' orgs
       \<and> human' = human @ org_records columns ''Human'' orgs"
  using assms
proof (induction orgs arbitrary: mouse human)
  case Nil
  then show ?case by (simp add: org_records_Nil)
next
  case (Cons org rest)
  show ?case
  proof (cases "organism_mapper org")
    case None
    with Cons.prems
    have "panglao_orgs columns rest (mouse, human) = Inr (mouse', human')" by simp
    from Cons.IH [OF this] None show ?thesis by (simp add: org_records_skip)
  next
    case (Some name)
    with Cons.prems obtain gene_symbol cell_type
      where sym: "get columns 1 = Inr gene_symbol" and cell: "get columns 2 = Inr cell_type"
      by (auto split: sum.splits)
    let ?entry = "[name, gene_symbol, cell_type, ''PanglaoDB'', ''https://panglaodb.se/'']"
    from Some consider "name = ''Mouse''" | "name = ''Human''"
      by (auto simp: organism_mapper_Some)
    then show ?thesis
    proof cases
      case 1
      with Cons.prems Some sym cell
      have run: "panglao_orgs columns rest (mouse @ [?entry], human) = Inr (mouse', human')"
        by (simp add: Let_def)
      have keep: "org_records columns ''Mouse'' (org # rest) = ?entry # org_records columns ''Mouse'' rest"
        using Some 1 sym cell by (simp add: org_records_keep)
      have skip: "org_records columns ''Human'' (org # rest) = org_records columns ''Human'' rest"
        using Some 1 by (simp add: org_records_skip)
      from Cons.IH [OF run] keep skip show ?thesis by simp
    next
      case 2
      with Cons.prems Some sym cell
      have run: "panglao_orgs columns rest (mouse, human @ [?entry]) = Inr (mouse', human')"
        by (simp add: Let_def)
      have keep: "org_records columns ''Human'' (org # rest) = ?entry # org_records columns ''Human'' rest"
        using Some 2 sym cell by (simp add: org_records_keep)
      have skip: "org_records columns ''Mouse'' (org # rest) = org_records columns ''Mouse'' rest"
        using Some 2 by (simp add: org_records_skip)
      from Cons.IH [OF run] keep skip show ?thesis by simp
    qed
  qed
qed

lemma panglao_lines_records:
  assumes "panglao_lines lines (mouse, human) = Inr (mouse', human')"
  shows "mouse' = mouse @ concat (map (panglao_line_records ''Mouse'') lines)
       \<and> human' = human @ concat (map (panglao_line_records ''Human'') lines)"
  using assms
proof (induction lines arbitrary: mouse human)
  case Nil
  then show ?case by simp
next
  case (Cons line rest)
  from Cons.prems obtain species m1 h1
    where sp: "get (str_split [tab] line) 0 = Inr species"
      and inner: "panglao_orgs (str_split [tab] line) (str_split '' '' species) (mouse, human)
                  = Inr (m1, h1)"
      and outer: "panglao_lines rest (m1, h1) = Inr (mouse', human')"
    by (auto simp: Let_def split: sum.splits)
  from panglao_orgs_records [OF inner] sp
  have "m1 = mouse @ panglao_line_records ''Mouse'' line"
    and "h1 = human @ panglao_line_records ''Human'' line"
    by (simp_all add: panglao_line_records_def)
  with Cons.IH [OF outer] show ?case by simp
qed

subsection \<open>Uniqueness and first occurrences\<close>

text \<open>
  Claim C2, as the code has it. In a CellMarker build the list of records has at most one
  record for each pair of cell type and entrez id. A PanglaoDB build compares no record
  with another: its table is, for the mouse and then for the human, one record for every
  organism code of every line that stands for that organism, each with the two columns of
  the gene matcher, so a gene that a cell type is given twice has two records.
\<close>

theorem marker_uniqueness_by_format:
  "(cellmarker_data cellmarker_content = Inr data \<longrightarrow> distinct (map marker_key data))
   \<and> (panglao_prepare_data match panglao_content = Inr rows \<longrightarrow>
        rows =
          map (\<lambda>row. row @ [fst (match ''10090'' (row ! 1)), snd (match ''10090'' (row ! 1))])
            (concat (map (panglao_line_records ''Mouse'') (str_split [newline] panglao_content)))
          @ map (\<lambda>row. row @ [fst (match ''9606'' (row ! 1)), snd (match ''9606'' (row ! 1))])
              (concat (map (panglao_line_records ''Human'') (str_split [newline] panglao_content))))"
proof (intro conjI impI)
  assume "cellmarker_data cellmarker_content = Inr data"
  from cellmarker_data_keep_first [OF this] show "distinct (map marker_key data)"
    by (simp add: keep_first_distinct)
next
  assume "panglao_prepare_data match panglao_content = Inr rows"
  then obtain mouse human
    where run: "panglao_lines (str_split [newline] panglao_content) ([], []) = Inr (mouse, human)"
      and rows: "rows =
          map (\<lambda>row. row @ [fst (match ''10090'' (row ! 1)), snd (match ''10090'' (row ! 1))]) mouse
          @ map (\<lambda>row. row @ [fst (match ''9606'' (row ! 1)), snd (match ''9606'' (row ! 1))]) human"
    by (auto simp: panglao_prepare_data_def split: sum.splits)
  from panglao_lines_records [OF run] rows
  show "rows =
          map (\<lambda>row. row @ [fst (match ''10090'' (row ! 1)), snd (match ''10090'' (row ! 1))])
            (concat (map (panglao_line_records ''Mouse'') (str_split [newline] panglao_content)))
          @ map (\<lambda>row. row @ [fst (match ''9606'' (row ! 1)), snd (match ''9606'' (row ! 1))])
              (concat (map (panglao_line_records ''Human'') (str_split [newline] panglao_content)))"
    by simp
qed

text \<open>
  A CellMarker line that names the entrez id 920 twice for the T cell gives one record; a
  PanglaoDB text whose first line has the codes of both organisms and whose second line
  repeats the gene for the human gives one mouse record and two human records.
\<close>

theorem marker_uniqueness_by_format_witness:
  "cellmarker_data
     (''Human'' @ [tab] @ ''a'' @ [tab] @ ''b'' @ [tab] @ ''c'' @ [tab] @ ''d'' @ [tab] @ ''T cell''
        @ [tab] @ ''e'' @ [tab] @ ''f'' @ [tab] @ ''[CD4, CD4]'' @ [tab] @ ''[920, 920]''
        @ [tab] @ ''g'' @ [tab] @ ''h'' @ [tab] @ ''i'' @ [tab] @ ''12345'')
   = Inr [[''Human'', ''CD4'', ''T cell'', ''12345'',
           ''https://www.ncbi.nlm.nih.gov/pubmed/?term=12345'', ''920'']]
   \<and> distinct (map marker_key [[''Human'', ''CD4'', ''T cell'', ''12345'',
           ''https://www.ncbi.nlm.nih.gov/pubmed/?term=12345'', ''920'']])
   \<and> panglao_prepare_data (\<lambda>tax name. (''920'', ''CD4 molecule''))
       (''Mm Hs'' @ [tab] @ ''CD4'' @ [tab] @ ''T cells'' @ [newline] @
        ''Hs'' @ [tab] @ ''CD4'' @ [tab] @ ''T cells'')
     = Inr [[''Mouse'', ''CD4'', ''T cells'', ''PanglaoDB'', ''https://panglaodb.se/'',
             ''920'', ''CD4 molecule''],
            [''Human'', ''CD4'', ''T cells'', ''PanglaoDB'', ''https://panglaodb.se/'',
             ''920'', ''CD4 molecule''],
            [''Human'', ''CD4'', ''T cells'', ''PanglaoDB'', ''https://panglaodb.se/'',
             ''920'', ''CD4 molecule'']]"
proof -
  have run_b: "cellmarker_data
     (''Human'' @ [tab] @ ''a'' @ [tab] @ ''b'' @ [tab] @ ''c'' @ [tab] @ ''d'' @ [tab] @ ''T cell''
        @ [tab] @ ''e'' @ [tab] @ ''f'' @ [tab] @ ''[CD4, CD4]'' @ [tab] @ ''[920, 920]''
        @ [tab] @ ''g'' @ [tab] @ ''h'' @ [tab] @ ''i'' @ [tab] @ ''12345'')
   = Inr [[''Human'', ''CD4'', ''T cell'', ''12345'',
           ''https://www.ncbi.nlm.nih.gov/pubmed/?term=12345'', ''920'']]"
    by (simp add: cellmarker_data_def Let_def get_def bracket_list_def str_remove_def int_parses_def
        int_space_def isdigit_def)
  have run_a: "panglao_prepare_data (\<lambda>tax name. (''920'', ''CD4 molecule''))
       (''Mm Hs'' @ [tab] @ ''CD4'' @ [tab] @ ''T cells'' @ [newline] @
        ''Hs'' @ [tab] @ ''CD4'' @ [tab] @ ''T cells'')
     = Inr [[''Mouse'', ''CD4'', ''T cells'', ''PanglaoDB'', ''https://panglaodb.se/'',
             ''920'', ''CD4 molecule''],
            [''Human'', ''CD4'', ''T cells'', ''PanglaoDB'', ''https://panglaodb.se/'',
             ''920'', ''CD4 molecule''],
            [''Human'', ''CD4'', ''T cells'', ''PanglaoDB'', ''https://panglaodb.se/'',
             ''920'', ''CD4 molecule'']]"
    by (simp add: panglao_prepare_data_def get_def organism_mapper_def)
  show ?thesis
    using run_a run_b
      marker_uniqueness_by_format
        [of "''Human'' @ [tab] @ ''a'' @ [tab] @ ''b'' @ [tab] @ ''c'' @ [tab] @ ''d'' @ [tab] @ ''T cell''
              @ [tab] @ ''e'' @ [tab] @ ''f'' @ [tab] @ ''[CD4, CD4]'' @ [tab] @ ''[920, 920]''
              @ [tab] @ ''g'' @ [tab] @ ''h'' @ [tab] @ ''i'' @ [tab] @ ''12345''"
            "[[''Human'', ''CD4'', ''T cell'', ''12345'',
               ''https://www.ncbi.nlm.nih.gov/pubmed/?term=12345'', ''920'']]"
            "\<lambda>tax name. (''920'', ''CD4 molecule'')"
            "''Mm Hs'' @ [tab] @ ''CD4'' @ [tab] @ ''T cells'' @ [newline] @
             ''Hs'' @ [tab] @ ''CD4'' @ [tab] @ ''T cells''"]
    by simp
qed

text \<open>
  The claim as the specification words it fails for the PanglaoDB build: two lines that
  name the same gene for the same cell type give two records, and whatever entrez id the
  gene matcher finds for the name, the two records have the same cell type and entrez id.
\<close>

theorem panglao_unique_keys_counterexample:
  "map_sum id (map marker_key)
     (panglao_prepare_data (\<lambda>tax name. (''920'', ''CD4 molecule''))
        (''Hs'' @ [tab] @ ''CD4'' @ [tab] @ ''T cells'' @ [newline] @
         ''Hs'' @ [tab] @ ''CD4'' @ [tab] @ ''T cells''))
   = Inr [(''T cells'', ''920''), (''T cells'', ''920'')]"
  by (simp add: panglao_prepare_data_def get_def organism_mapper_def marker_key_def)

lemma panglao_duplicate_lines:
  "\<exists>row. panglao_prepare_data match
            (''Hs'' @ [tab] @ ''CD4'' @ [tab] @ ''T cells'' @ [newline] @
             ''Hs'' @ [tab] @ ''CD4'' @ [tab] @ ''T cells'') = Inr [row, row]"
  by (simp add: panglao_prepare_data_def get_def organism_mapper_def)

text \<open>
  Claim C7. Whenever the CellMarker build returns its list of records: no two records
  have the same key; the keys of the records are the keys of the candidates, so that each
  key that some pair produces has exactly one record; each record is the first candidate
  of its key in input order; and the records are the candidates in their order with some
  left out, which are therefore the later candidates of a key already met.
\<close>

theorem cellmarker_first_occurrence:
  assumes "cellmarker_data content = Inr data"
  shows "distinct (map marker_key data)
       \<and> marker_key ` set data = marker_key ` set (cellmarker_candidates content)
       \<and> (\<forall>row\<in>set data.
            find (\<lambda>c. marker_key c = marker_key row) (cellmarker_candidates content) = Some row)
       \<and> subseq data (cellmarker_candidates content)"
proof -
  note data = cellmarker_data_keep_first [OF assms]
  have "distinct (map marker_key data)"
    by (simp add: data keep_first_distinct)
  moreover have "marker_key ` set data = marker_key ` set (cellmarker_candidates content)"
    by (simp add: data keep_first_keys)
  moreover have "\<forall>row\<in>set data.
      find (\<lambda>c. marker_key c = marker_key row) (cellmarker_candidates content) = Some row"
    using data keep_first_find by blast
  moreover have "subseq data (cellmarker_candidates content)"
    by (simp add: data keep_first_subseq)
  ultimately show ?thesis by blast
qed

text \<open>
  Two lines: the first gives CD4 and CD3E for the T cell, the second, from a book and for
  the mouse, gives the entrez id 920 for the T cell again. The candidates are three and
  the records are the first two.
\<close>

theorem cellmarker_first_occurrence_witness:
  "cellmarker_data
     (''Human'' @ [tab] @ ''a'' @ [tab] @ ''b'' @ [tab] @ ''c'' @ [tab] @ ''d'' @ [tab] @ ''T cell''
        @ [tab] @ ''e'' @ [tab] @ ''f'' @ [tab] @ ''[CD4, CD3E]'' @ [tab] @ ''[920, 916]''
        @ [tab] @ ''g'' @ [tab] @ ''h'' @ [tab] @ ''i'' @ [tab] @ ''12345'' @ [newline] @
      ''Mouse'' @ [tab] @ ''a'' @ [tab] @ ''b'' @ [tab] @ ''c'' @ [tab] @ ''d'' @ [tab] @ ''T cell''
        @ [tab] @ ''e'' @ [tab] @ ''f'' @ [tab] @ ''Cd4'' @ [tab] @ ''920''
        @ [tab] @ ''g'' @ [tab] @ ''h'' @ [tab] @ ''i'' @ [tab] @ ''Book'')
   = Inr [[''Human'', ''CD4'', ''T cell'', ''12345'',
           ''https://www.ncbi.nlm.nih.gov/pubmed/?term=12345'', ''920''],
          [''Human'', ''CD3E'', ''T cell'', ''12345'',
           ''https://www.ncbi.nlm.nih.gov/pubmed/?term=12345'', ''916'']]
   \<and> cellmarker_candidates
     (''Human'' @ [tab] @ ''a'' @ [tab] @ ''b'' @ [tab] @ ''c'' @ [tab] @ ''d'' @ [tab] @ ''T cell''
        @ [tab] @ ''e'' @ [tab] @ ''f'' @ [tab] @ ''[CD4, CD3E]'' @ [tab] @ ''[920, 916]''
        @ [tab] @ ''g'' @ [tab] @ ''h'' @ [tab] @ ''i'' @ [tab] @ ''12345'' @ [newline] @
      ''Mouse'' @ [tab] @ ''a'' @ [tab] @ ''b'' @ [tab] @ ''c'' @ [tab] @ ''d'' @ [tab] @ ''T cell''
        @ [tab] @ ''e'' @ [tab] @ ''f'' @ [tab] @ ''Cd4'' @ [tab] @ ''920''
        @ [tab] @ ''g'' @ [tab] @ ''h'' @ [tab] @ ''i'' @ [tab] @ ''Book'')
   = [[''Human'', ''CD4'', ''T cell'', ''12345'',
       ''https://www.ncbi.nlm.nih.gov/pubmed/?term=12345'', ''920''],
      [''Human'', ''CD3E'', ''T cell'', ''12345'',
       ''https://www.ncbi.nlm.nih.gov/pubmed/?term=12345'', ''916''],
      [''Mouse'', ''Cd4'', ''T cell'', ''Book'', ''?'', ''920'']]
   \<and> find (\<lambda>c. marker_key c = (''T cell'', ''920''))
       [[''Human'', ''CD4'', ''T cell'', ''12345'',
         ''https://www.ncbi.nlm.nih.gov/pubmed/?term=12345'', ''920''],
        [''Human'', ''CD3E'', ''T cell'', ''12345'',
         ''https://www.ncbi.nlm.nih.gov/pubmed/?term=12345'', ''916''],
        [''Mouse'', ''Cd4'', ''T cell'', ''Book'', ''?'', ''920'']]
     = Some [''Human'', ''CD4'', ''T cell'', ''12345'',
             ''https://www.ncbi.nlm.nih.gov/pubmed/?term=12345'', ''920'']"
proof -
  have run: "cellmarker_data
     (''Human'' @ [tab] @ ''a'' @ [tab] @ ''b'' @ [tab] @ ''c'' @ [tab] @ ''d'' @ [tab] @ ''T cell''
        @ [tab] @ ''e'' @ [tab] @ ''f'' @ [tab] @ ''[CD4, CD3E]'' @ [tab] @ ''[920, 916]''
        @ [tab] @ ''g'' @ [tab] @ ''h'' @ [tab] @ ''i'' @ [tab] @ ''12345'' @ [newline] @
      ''Mouse'' @ [tab] @ ''a'' @ [tab] @ ''b'' @ [tab] @ ''c'' @ [tab] @ ''d'' @ [tab] @ ''T cell''
        @ [tab] @ ''e'' @ [tab] @ ''f'' @ [tab] @ ''Cd4'' @ [tab] @ ''920''
        @ [tab] @ ''g'' @ [tab] @ ''h'' @ [tab] @ ''i'' @ [tab] @ ''Book'')
   = Inr [[''Human'', ''CD4'', ''T cell'', ''12345'',
           ''https://www.ncbi.nlm.nih.gov/pubmed/?term=12345'', ''920''],
          [''Human'', ''CD3E'', ''T cell'', ''12345'',
           ''https://www.ncbi.nlm.nih.gov/pubmed/?term=12345'', ''916'']]"
    by (simp add: cellmarker_data_def Let_def get_def bracket_list_def str_remove_def int_parses_def
        int_space_def isdigit_def)
  show ?thesis
    using run cellmarker_first_occurrence [OF run]
    by (simp add: cellmarker_candidates_def line_candidates_def pair_candidate_def
        List.map_filter_simps get_def bracket_list_def str_remove_def int_parses_def
        int_space_def isdigit_def marker_key_def)
qed

end
